theory Spec2Isabelle
  imports Main "HOL-Library.Word"
begin

section \<open>Machine integers and shared types\<close>

text \<open>
  Go's \<open>int64\<close> and \<open>uint64\<close> are both 64-bit words. The conversions
  \<open>uint64(x)\<close> and \<open>int64(x)\<close> keep the bits, so both types are \<open>64 word\<close>
  here; a signed comparison reads the word with \<open>sint\<close>, an unsigned one with
  \<open>uint\<close>.
\<close>

type_synonym int64 = "64 word"
type_synonym uint64 = "64 word"
type_synonym byte = "8 word"

text \<open>\<open>common.Hash\<close> and \<open>common.Address\<close> are fixed-size byte arrays.\<close>

type_synonym hash = "byte list"
type_synonym address = "byte list"

text \<open>Every error value that the modelled functions return or panic with.\<close>

datatype error =
    ErrEncodeNilBlock         \<comment> \<open>"encoderlp proposal with nil block"\<close>
  | ErrBadValidRoundNil       \<comment> \<open>"bad proposal validRound with isValidround nil"\<close>
  | ErrInvalidRounds          \<comment> \<open>"bad proposal with invalid rounds"\<close>
  | ErrNilDecodedBlock        \<comment> \<open>"bad proposal with nil decoded block"\<close>
  | errInvalidMessage
  | ErrRlp string             \<comment> \<open>an error returned by the rlp package\<close>
  | errUnexpectedCode         \<comment> \<open>"unexpected message code"\<close>
  | errFailedDecodeProposal
  | errFailedDecodePrevote
  | errFailedDecodePrecommit
  | ErrUnrecognisedCode uint64  \<comment> \<open>"unrecognised consensus message code %q" of \<open>m.Code\<close>\<close>
  | ErrNonCommitteeMember     \<comment> \<open>"received message from non committee member"\<close>
  | ErrAddressMismatch        \<comment> \<open>"address in message and address derived from signature don't match"\<close>
  | errNotFromProposer
  | ErrCollaborator string    \<comment> \<open>an error returned by a collaborator outside the sources\<close>
  | NilPointerDereference     \<comment> \<open>runtime panic\<close>

section \<open>Message codec (package messges)\<close>

text \<open>
  Modelled from the spec: the constant \<open>MaxRound\<close> is used by the decoders but
  declared outside the sources; the specification gives \<open>MAX_ROUND = 99\<close>. It is an
  untyped constant: it is compared with an \<open>int64\<close> and with a \<open>uint64\<close>.
\<close>

definition MaxRound :: int where
  "MaxRound = 99"

text \<open>
  The fields of \<open>Proposal\<close> and \<open>Vote\<close> that \<open>EncodeRLP\<close> and \<open>DecodeRLP\<close>
  read and write. \<open>Height\<close> is a \<open>*big.Int\<close>; the encoding carries natural
  numbers only. \<open>ProposalBlock\<close> is a pointer, \<open>None\<close> is \<open>nil\<close>.
\<close>

record 'b Proposal =
  Round :: int64
  Height :: nat
  ValidRound :: int64
  ProposalBlock :: "'b option"

record Vote =
  VoteRound :: int64
  VoteHeight :: nat
  ProposedBlockHash :: hash

text \<open>
  The anonymous structs that the decoders hand to \<open>s.Decode\<close>, which are also the
  lists that the encoders hand to \<open>rlp.Encode\<close>, field by field. The byte layout is
  the rlp package's and is not part of the sources: a stream is represented by what
  \<open>s.Decode\<close> returns on it, an error or the decoded struct.
\<close>

record 'b rlpProposal =
  rlpRound :: uint64
  rlpHeight :: nat
  rlpValidRound :: uint64
  rlpIsValidRoundNil :: bool
  rlpProposalBlock :: "'b option"

record rlpVote =
  rlpVoteRound :: uint64
  rlpVoteHeight :: nat
  rlpProposedBlockHash :: hash

definition Proposal_EncodeRLP :: "'b Proposal \<Rightarrow> error + 'b rlpProposal" where
  "Proposal_EncodeRLP p =
     (if ProposalBlock p = None then Inl ErrEncodeNilBlock
      else
        let (validRound, isValidRoundNil) =
              (if ValidRound p = -1 then (0, True) else (ValidRound p, False))
        in Inr \<lparr> rlpRound = Round p,
                 rlpHeight = Height p,
                 rlpValidRound = validRound,
                 rlpIsValidRoundNil = isValidRoundNil,
                 rlpProposalBlock = ProposalBlock p \<rparr>)"

text \<open>
  \<open>DecodeRLP\<close> writes into its receiver; the model returns the error (\<open>None\<close> is
  \<open>nil\<close>) together with the receiver as the call leaves it.
\<close>

definition Proposal_DecodeRLP ::
  "'b Proposal \<Rightarrow> error + 'b rlpProposal \<Rightarrow> error option \<times> 'b Proposal" where
  "Proposal_DecodeRLP p s =
     (case s of
        Inl err \<Rightarrow> (Some err, p)
      | Inr proposal \<Rightarrow>
          if rlpIsValidRoundNil proposal \<and> rlpValidRound proposal \<noteq> 0
          then (Some ErrBadValidRoundNil, p)
          else
            let validRound = (if rlpIsValidRoundNil proposal then -1
                              else rlpValidRound proposal)
            in if \<not> (sint validRound \<le> MaxRound \<and> uint (rlpRound proposal) \<le> MaxRound)
               then (Some ErrInvalidRounds, p)
               else if rlpProposalBlock proposal = None
               then (Some ErrNilDecodedBlock, p)
               else (None, p \<lparr> Round := rlpRound proposal,
                               Height := rlpHeight proposal,
                               ValidRound := validRound,
                               ProposalBlock := rlpProposalBlock proposal \<rparr>))"

definition Vote_EncodeRLP :: "Vote \<Rightarrow> error + rlpVote" where
  "Vote_EncodeRLP sub =
     Inr \<lparr> rlpVoteRound = VoteRound sub,
           rlpVoteHeight = VoteHeight sub,
           rlpProposedBlockHash = ProposedBlockHash sub \<rparr>"

definition Vote_DecodeRLP :: "Vote \<Rightarrow> error + rlpVote \<Rightarrow> error option \<times> Vote" where
  "Vote_DecodeRLP sub s =
     (case s of
        Inl err \<Rightarrow> (Some err, sub)
      | Inr vote \<Rightarrow>
          let sub1 = sub \<lparr> VoteRound := rlpVoteRound vote \<rparr>
          in if sint (VoteRound sub1) > MaxRound then (Some errInvalidMessage, sub1)
             else (None, sub1 \<lparr> VoteHeight := rlpVoteHeight vote,
                                ProposedBlockHash := rlpProposedBlockHash vote \<rparr>))"

section \<open>Evidence codec (package accountability)\<close>

text \<open>
  Modelled from the spec: the rlp package and the message package are outside the
  sources. The wire format is "canonical binary, length-prefixed": a value on the
  wire is a byte string or a list of values. An unsigned integer is carried as its
  big-endian bytes without leading zeros, so a \<open>uint8\<close> is the empty string when it is
  zero and one byte otherwise. The kind codes are 0 = proposal, 1 = prevote,
  2 = precommit, 3 = light-proposal.
\<close>

datatype rlpItem = RlpString "byte list" | RlpList "rlpItem list"

definition rlpUint8 :: "byte \<Rightarrow> rlpItem" where
  "rlpUint8 c = RlpString (if c = 0 then [] else [c])"

definition rlpDecodeUint8 :: "rlpItem \<Rightarrow> error + byte" where
  "rlpDecodeUint8 item =
     (case item of
        RlpList xs \<Rightarrow> Inl (ErrRlp ''rlp: expected input string or byte'')
      | RlpString b \<Rightarrow>
          (case b of
             [] \<Rightarrow> Inr 0
           | [c] \<Rightarrow> if c = 0 then Inl (ErrRlp ''rlp: non-canonical integer'') else Inr c
           | c # d # bs \<Rightarrow> Inl (ErrRlp ''rlp: input string too long'')))"

definition ProposalCode :: byte where "ProposalCode = 0"
definition PrevoteCode :: byte where "PrevoteCode = 1"
definition PrecommitCode :: byte where "PrecommitCode = 2"
definition LightProposalCode :: byte where "LightProposalCode = 3"

text \<open>
  \<open>message.Message\<close> is an interface of the message package, outside the sources.
  The evidence codec uses a value \<open>'m\<close> behind it through three things, which are
  parameters here: its \<open>Code()\<close>, its own rlp encoding, and the decoders of
  \<open>message.Prevote\<close>, \<open>message.Precommit\<close> and \<open>message.LightProposal\<close> that
  \<open>stream.Decode\<close> runs.
\<close>

record 'm MessageCodec =
  msgCode :: "'m \<Rightarrow> byte"
  msgEncode :: "'m \<Rightarrow> rlpItem"
  decodePrevote :: "rlpItem \<Rightarrow> error + 'm"
  decodePrecommit :: "rlpItem \<Rightarrow> error + 'm"
  decodeLightProposal :: "rlpItem \<Rightarrow> error + 'm"

text \<open>\<open>typedMessage\<close> is a struct that embeds a \<open>message.Message\<close>.\<close>

datatype 'm typedMessage = typedMessage 'm

definition typedMessage_EncodeRLP :: "'m MessageCodec \<Rightarrow> 'm typedMessage \<Rightarrow> rlpItem" where
  "typedMessage_EncodeRLP K t =
     (case t of typedMessage m \<Rightarrow> RlpList [rlpUint8 (msgCode K m), msgEncode K m])"

text \<open>
  \<open>stream.List()\<close> enters a list, \<open>stream.Bytes()\<close> reads the next element as a
  string, \<open>stream.Decode(p)\<close> reads the next element into \<open>p\<close>, and
  \<open>stream.ListEnd()\<close> fails when elements are left.
\<close>

definition typedMessage_DecodeRLP :: "'m MessageCodec \<Rightarrow> rlpItem \<Rightarrow> error + 'm typedMessage" where
  "typedMessage_DecodeRLP K stream =
     (case stream of
        RlpString b \<Rightarrow> Inl (ErrRlp ''rlp: expected input list'')
      | RlpList items \<Rightarrow>
          (case items of
             [] \<Rightarrow> Inl (ErrRlp ''rlp: end of list'')
           | x # rest \<Rightarrow>
               (case x of
                  RlpList ys \<Rightarrow> Inl (ErrRlp ''rlp: expected input string or byte'')
                | RlpString b \<Rightarrow>
                    if length b = 0 then Inl (ErrRlp ''rlp: expected input string or byte'')
                    else
                      let dec = (if hd b = PrevoteCode then Some (decodePrevote K)
                                 else if hd b = PrecommitCode then Some (decodePrecommit K)
                                 else if hd b = LightProposalCode then Some (decodeLightProposal K)
                                 else None)
                      in (case dec of
                            None \<Rightarrow> Inl errUnexpectedCode
                          | Some decode \<Rightarrow>
                              (case rest of
                                 [] \<Rightarrow> Inl (ErrRlp ''rlp: end of list'')
                               | y # rest' \<Rightarrow>
                                   (case decode y of
                                      Inl err \<Rightarrow> Inl err
                                    | Inr p \<Rightarrow>
                                        if rest' = [] then Inr (typedMessage p)
                                        else Inl (ErrRlp ''rlp: input list has too many elements'')))))))"

text \<open>
  \<open>Type\<close> and \<open>Rule\<close> are the one-byte \<open>autonity.AccountabilityEventType\<close> and
  \<open>autonity.Rule\<close>. The record is polymorphic in what sits behind the
  \<open>message.Message\<close> interface: \<open>DecodeRLP\<close> stores the decoded \<open>typedMessage\<close>
  values themselves in \<open>Message\<close> and \<open>Evidences\<close>.
\<close>

record 'x Proof =
  Type :: byte
  Rule :: byte
  Message :: 'x
  Evidences :: "'x list"

record 'm encodedProof =
  encType :: byte
  encRule :: byte
  encMessage :: "'m typedMessage"
  encEvidences :: "'m typedMessage list"

text \<open>The loop of \<open>Proof.EncodeRLP\<close> that appends one \<open>typedMessage\<close> per evidence.\<close>

fun appendEvidences :: "'m typedMessage list \<Rightarrow> 'm list \<Rightarrow> 'm typedMessage list" where
  "appendEvidences acc [] = acc"
| "appendEvidences acc (m # ms) = appendEvidences (acc @ [typedMessage m]) ms"

text \<open>\<open>rlp.Encode(w, &encoded)\<close>: the struct is the list of its fields, a slice is a list.\<close>

definition encodedProof_Encode :: "'m MessageCodec \<Rightarrow> 'm encodedProof \<Rightarrow> rlpItem" where
  "encodedProof_Encode K e =
     RlpList [rlpUint8 (encType e), rlpUint8 (encRule e),
              typedMessage_EncodeRLP K (encMessage e),
              RlpList (map (typedMessage_EncodeRLP K) (encEvidences e))]"

definition Proof_EncodeRLP :: "'m MessageCodec \<Rightarrow> 'm Proof \<Rightarrow> rlpItem" where
  "Proof_EncodeRLP K p =
     (let encoded = \<lparr> encType = Type p, encRule = Rule p,
                      encMessage = typedMessage (Message p),
                      encEvidences = appendEvidences [] (Evidences p) \<rparr>
      in encodedProof_Encode K encoded)"

text \<open>Decoding a slice of \<open>typedMessage\<close>: element by element, the first error ends it.\<close>

fun decodeEvidences :: "'m MessageCodec \<Rightarrow> rlpItem list \<Rightarrow> error + 'm typedMessage list" where
  "decodeEvidences K [] = Inr []"
| "decodeEvidences K (x # xs) =
     (case typedMessage_DecodeRLP K x of
        Inl err \<Rightarrow> Inl err
      | Inr t \<Rightarrow> (case decodeEvidences K xs of
                    Inl err \<Rightarrow> Inl err
                  | Inr ts \<Rightarrow> Inr (t # ts)))"

text \<open>\<open>stream.Decode(&encoded)\<close>: the four fields in order, nothing after them.\<close>

definition encodedProof_Decode :: "'m MessageCodec \<Rightarrow> rlpItem \<Rightarrow> error + 'm encodedProof" where
  "encodedProof_Decode K stream =
     (case stream of
        RlpList [ty, ru, msg, evs] \<Rightarrow>
          (case rlpDecodeUint8 ty of
             Inl err \<Rightarrow> Inl err
           | Inr t \<Rightarrow>
               (case rlpDecodeUint8 ru of
                  Inl err \<Rightarrow> Inl err
                | Inr r \<Rightarrow>
                    (case typedMessage_DecodeRLP K msg of
                       Inl err \<Rightarrow> Inl err
                     | Inr m \<Rightarrow>
                         (case evs of
                            RlpString b \<Rightarrow> Inl (ErrRlp ''rlp: expected input list'')
                          | RlpList items \<Rightarrow>
                              (case decodeEvidences K items of
                                 Inl err \<Rightarrow> Inl err
                               | Inr es \<Rightarrow>
                                   Inr \<lparr> encType = t, encRule = r,
                                         encMessage = m, encEvidences = es \<rparr>)))))
      | _ \<Rightarrow> Inl (ErrRlp ''rlp: expected a list of four elements''))"

text \<open>
  \<open>Proof.DecodeRLP\<close> makes a slice of \<open>len(encoded.Evidences)\<close> entries and assigns
  \<open>p.Evidences[i] = encoded.Evidences[i]\<close> for every index \<open>i\<close> of the range.
\<close>

definition copyEvidences :: "'a list \<Rightarrow> 'a list" where
  "copyEvidences src = map (\<lambda>i. src ! i) [0..<length src]"

definition Proof_DecodeRLP ::
  "'m MessageCodec \<Rightarrow> 'm typedMessage Proof \<Rightarrow> rlpItem \<Rightarrow> error option \<times> 'm typedMessage Proof" where
  "Proof_DecodeRLP K p stream =
     (case encodedProof_Decode K stream of
        Inl err \<Rightarrow> (Some err, p)
      | Inr encoded \<Rightarrow>
          (None, p \<lparr> Type := encType encoded,
                     Rule := encRule encoded,
                     Message := encMessage encoded,
                     Evidences := copyEvidences (encEvidences encoded) \<rparr>))"

section \<open>Message store (package core, MsgStore)\<close>

text \<open>
  What \<open>MsgStore\<close> reads of a \<open>mUtils.Message\<close>: the fields \<open>Code\<close> and
  \<open>Address\<close>, and the height and round that its methods \<open>H()\<close>, \<open>Height()\<close> and
  \<open>Round()\<close> return (the store ignores their error results and keys the map by
  \<open>height.Uint64()\<close>). \<open>mBody\<close> stands for the rest of the message. The
  message type itself is outside the sources.
\<close>

record mUtilsMessage =
  mCode :: byte
  mAddress :: address
  mHeight :: uint64
  mRound :: int64
  mBody :: "byte list"

definition H :: "mUtilsMessage \<Rightarrow> uint64" where
  "H m = mHeight m"

definition Height_Uint64 :: "mUtilsMessage \<Rightarrow> uint64" where
  "Height_Uint64 m = mHeight m"

type_synonym addressMap = "address \<rightharpoonup> mUtilsMessage list"
type_synonym msgTypeMap = "byte \<rightharpoonup> addressMap"
type_synonym roundMap = "int64 \<rightharpoonup> msgTypeMap"

record MsgStore =
  firstHeight :: uint64
  messages :: "uint64 \<rightharpoonup> roundMap"

definition NewMsgStore :: MsgStore where
  "NewMsgStore = \<lparr> firstHeight = 0, messages = Map.empty \<rparr>"

text \<open>
  Go maps are references: \<open>Save\<close> creates the inner maps that are missing, links
  them into their parents and updates the innermost one in place. The model writes
  the updated inner maps back into their parents.
\<close>

definition Save :: "MsgStore \<Rightarrow> mUtilsMessage \<Rightarrow> MsgStore" where
  "Save ms m =
     (let ms1 = (if firstHeight ms = 0 then ms \<lparr> firstHeight := H m \<rparr> else ms);
          height = Height_Uint64 m;
          roundMap = (case messages ms1 height of None \<Rightarrow> Map.empty | Some rm \<Rightarrow> rm);
          round = mRound m;
          msgTypeMap = (case roundMap round of None \<Rightarrow> Map.empty | Some tm \<Rightarrow> tm);
          addressMap = (case msgTypeMap (mCode m) of None \<Rightarrow> Map.empty | Some am \<Rightarrow> am);
          addressMap' = (case addressMap (mAddress m) of
                           None \<Rightarrow> addressMap(mAddress m \<mapsto> [] @ [m])
                         | Some msgs \<Rightarrow> addressMap(mAddress m \<mapsto> msgs @ [m]))
      in ms1 \<lparr> messages :=
                 (messages ms1)(height \<mapsto> roundMap(round \<mapsto> msgTypeMap(mCode m \<mapsto> addressMap'))) \<rparr>)"

definition FirstHeightBuffered :: "MsgStore \<Rightarrow> uint64" where
  "FirstHeightBuffered ms = firstHeight ms"

text \<open>The loop deletes every key \<open>h\<close> of \<open>ms.messages\<close> with \<open>h <= height\<close> (unsigned).\<close>

definition DeleteMsgsBeforeHeight :: "MsgStore \<Rightarrow> uint64 \<Rightarrow> MsgStore" where
  "DeleteMsgsBeforeHeight ms height =
     ms \<lparr> messages := (\<lambda>h. if h \<le> height then None else messages ms h) \<rparr>"

text \<open>The list stored under a key, empty when any of the four maps lacks it.\<close>

definition stored :: "MsgStore \<Rightarrow> uint64 \<Rightarrow> int64 \<Rightarrow> byte \<Rightarrow> address \<Rightarrow> mUtilsMessage list" where
  "stored ms height round code sender =
     (case messages ms height of
        None \<Rightarrow> []
      | Some rm \<Rightarrow>
          (case rm round of
             None \<Rightarrow> []
           | Some tm \<Rightarrow>
               (case tm code of
                  None \<Rightarrow> []
                | Some am \<Rightarrow> (case am sender of None \<Rightarrow> [] | Some msgs \<Rightarrow> msgs))))"

section \<open>Core state machine (package core)\<close>

subsection \<open>Data\<close>

text \<open>
  \<open>types.Block\<close> is outside the sources. The rules read a block through \<open>Hash()\<close>
  and \<open>Number()\<close> only, so a block is these two values. Blocks are handled through
  pointers; \<open>None\<close> is the \<open>nil\<close> pointer, and calling \<open>Hash()\<close> or \<open>Number()\<close> on
  it is a nil dereference, a runtime panic.
\<close>

record Block =
  blockHash :: hash
  blockNumber :: nat

datatype 'a result = Ok 'a | Panic error

definition Block_Hash :: "Block option \<Rightarrow> hash result" where
  "Block_Hash b = (case b of None \<Rightarrow> Panic NilPointerDereference | Some blk \<Rightarrow> Ok (blockHash blk))"

definition Block_Number :: "Block option \<Rightarrow> nat result" where
  "Block_Number b = (case b of None \<Rightarrow> Panic NilPointerDereference | Some blk \<Rightarrow> Ok (blockNumber blk))"

text \<open>
  Modelled from the spec: the declarations of the steps and of the message codes are
  outside the sources. The steps are propose, prevote, precommit in this order (the
  rules compare them with \<open>>=\<close>); the codes are 0 = proposal, 1 = prevote,
  2 = precommit.
\<close>

datatype Step = propose | prevote | precommit

fun Step_ord :: "Step \<Rightarrow> nat" where
  "Step_ord propose = 0"
| "Step_ord prevote = 1"
| "Step_ord precommit = 2"

definition msgProposal :: uint64 where "msgProposal = 0"
definition msgPrevote :: uint64 where "msgPrevote = 1"
definition msgPrecommit :: uint64 where "msgPrecommit = 2"

record Message =
  Code :: uint64
  Msg :: "byte list"
  Address :: address
  Signature :: "byte list"
  CommittedSeal :: "byte list"
  Hash :: hash

definition new_Message :: Message where
  "new_Message = \<lparr> Code = 0, Msg = [], Address = replicate 20 0, Signature = [],
                   CommittedSeal = [], Hash = replicate 32 0 \<rparr>"

text \<open>\<open>consensusMessageType\<close> is a \<open>uint8\<close>; the conversion from \<open>uint64\<close> truncates.\<close>

type_synonym consensusMessageType = byte

definition consensusMessageType :: "uint64 \<Rightarrow> consensusMessageType" where
  "consensusMessageType c = ucast c"

fun in_types :: "consensusMessageType \<Rightarrow> uint64 list \<Rightarrow> bool" where
  "in_types cmt [] = False"
| "in_types cmt (t # types) = (if cmt = consensusMessageType t then True else in_types cmt types)"

record consensusMessage =
  msgType :: consensusMessageType
  cmHeight :: uint64
  cmRound :: int64
  cmValue :: hash
  cmValidRound :: int64

definition voteForNil :: bool where "voteForNil = True"
definition voteForValue :: bool where "voteForValue = False"
definition nilValue :: hash where "nilValue = replicate 32 0"

text \<open>
  Calls that leave the sources are recorded, in order, in the field \<open>effects\<close> of the
  core: \<open>sendPrevote\<close>, \<open>sendPrecommit\<close>, \<open>scheduleTimeout\<close> on one of the three
  timers, \<open>commit\<close>, \<open>backend.VerifyProposal\<close> and \<open>startRound\<close>. A duration is
  the call that computes it.
\<close>

datatype timer = proposeTimeout | prevoteTimeout | precommitTimeout

datatype duration = timeoutPropose int64 | timeoutPrevote int64 | timeoutPrecommit int64

datatype callback = onTimeoutPropose | onTimeoutPrevote | onTimeoutPrecommit

datatype effect =
    SendPrevote bool
  | SendPrecommit bool
  | ScheduleTimeout timer duration int64 nat callback
  | Commit "Block option" int64
  | VerifyProposal Block
  | StartRound int64

text \<open>
  The fields of \<open>core\<close> that the handlers use. \<open>'c\<close> is the message cache and
  \<open>'h\<close> the last header, both outside the sources. \<open>height\<close> and \<open>round\<close> are
  what \<open>c.Height()\<close> and \<open>c.Round()\<close> return.
\<close>

record ('c, 'h) core =
  height :: nat
  round :: int64
  step :: Step
  lockedRound :: int64
  lockedValue :: "Block option"
  validRound :: int64
  validValue :: "Block option"
  line34Executed :: bool
  line36Executed :: bool
  line47Executed :: bool
  msgCache :: 'c
  lastHeader :: 'h
  effects :: "effect list"

text \<open>
  The collaborators that the handlers call and that are outside the sources: the
  hash function, the decoders, the message cache, the header and the signature
  checks. A collaborator that returns an \<open>error\<close> returns a sum or an option; one
  that changes the cache returns the new cache.
\<close>

record ('c, 'h) backend =
  Keccak256 :: "byte list \<Rightarrow> hash"
  rlp_DecodeBytes :: "byte list \<Rightarrow> Message \<Rightarrow> error + Message"
  Decode_Proposal :: "Message \<Rightarrow> error + Block Proposal"
  Decode_Vote :: "Message \<Rightarrow> error + Vote"
  verifyCommittedSeal :: "address \<Rightarrow> byte list \<Rightarrow> hash \<Rightarrow> int64 \<Rightarrow> nat \<Rightarrow> error option"
  cache_Message :: "'c \<Rightarrow> hash \<Rightarrow> Message option"
  cache_addMessage :: "'c \<Rightarrow> Message \<Rightarrow> consensusMessage \<Rightarrow> error option \<times> 'c"
  cache_addValue :: "'c \<Rightarrow> hash \<Rightarrow> Block option \<Rightarrow> 'c"
  cache_setValid :: "'c \<Rightarrow> hash \<Rightarrow> 'c"
  cache_isValid :: "'c \<Rightarrow> hash \<Rightarrow> bool"
  cache_matchingProposal :: "'c \<Rightarrow> consensusMessage \<Rightarrow> consensusMessage option"
  cache_prevoteQuorum :: "'c \<Rightarrow> hash option \<Rightarrow> int64 \<Rightarrow> 'h \<Rightarrow> bool"
  cache_precommitQuorum :: "'c \<Rightarrow> hash option \<Rightarrow> int64 \<Rightarrow> 'h \<Rightarrow> bool"
  cache_value :: "'c \<Rightarrow> hash \<Rightarrow> Block option"
  cache_fail :: "'c \<Rightarrow> int64 \<Rightarrow> 'h \<Rightarrow> bool"
  CommitteeMember :: "'h \<Rightarrow> address \<Rightarrow> bool"
  PayloadNoSig :: "Message \<Rightarrow> error + byte list"
  CheckValidatorSignature :: "'h \<Rightarrow> byte list \<Rightarrow> byte list \<Rightarrow> error + address"
  isProposerMsg :: "('c, 'h) core \<Rightarrow> int64 \<Rightarrow> address \<Rightarrow> bool"

definition emit :: "effect \<Rightarrow> ('c, 'h) core \<Rightarrow> ('c, 'h) core" where
  "emit e c = c \<lparr> effects := effects c @ [e] \<rparr>"

definition sendPrevote :: "bool \<Rightarrow> ('c, 'h) core \<Rightarrow> ('c, 'h) core" where
  "sendPrevote isNil c = emit (SendPrevote isNil) c"

definition sendPrecommit :: "bool \<Rightarrow> ('c, 'h) core \<Rightarrow> ('c, 'h) core" where
  "sendPrecommit isNil c = emit (SendPrecommit isNil) c"

definition scheduleTimeout ::
  "timer \<Rightarrow> duration \<Rightarrow> int64 \<Rightarrow> nat \<Rightarrow> callback \<Rightarrow> ('c, 'h) core \<Rightarrow> ('c, 'h) core" where
  "scheduleTimeout tm d r h cb c = emit (ScheduleTimeout tm d r h cb) c"

definition commit :: "Block option \<Rightarrow> int64 \<Rightarrow> ('c, 'h) core \<Rightarrow> ('c, 'h) core" where
  "commit block r c = emit (Commit block r) c"

definition setHeight :: "nat \<Rightarrow> ('c, 'h) core \<Rightarrow> ('c, 'h) core" where
  "setHeight n c = c \<lparr> height := n \<rparr>"

subsection \<open>checkUponConditions\<close>

text \<open>
  Each upon rule is one function. The Go function reads \<open>r\<close>, \<open>h\<close>, \<open>lh\<close>,
  \<open>t\<close> and \<open>p\<close> once at its start; \<open>s\<close> is its local copy of the step, which
  lines 36 and 44 update together with \<open>c.step\<close>. A rule that panics ends the call.
\<close>

definition Line22 ::
  "('c, 'h) backend \<Rightarrow> consensusMessage \<Rightarrow> int64 \<Rightarrow> ('c, 'h) core \<Rightarrow> ('c, 'h) core result" where
  "Line22 B cm r c =
     (if in_types (msgType cm) [msgProposal] \<and> cmRound cm = r \<and> cmValidRound cm = -1
         \<and> step c = propose
      then
        \<comment> \<open>\<open>a && b || d\<close>: \<open>d\<close> is evaluated when \<open>a && b\<close> is false\<close>
        if cache_isValid B (msgCache c) (cmValue cm) \<and> lockedRound c = -1
        then Ok (sendPrevote voteForValue c)
        else (case Block_Hash (lockedValue c) of
                Panic e \<Rightarrow> Panic e
              | Ok lockedHash \<Rightarrow>
                  if lockedHash = cmValue cm then Ok (sendPrevote voteForValue c)
                  else Ok (sendPrevote voteForNil c))
      else Ok c)"

definition Line28 ::
  "('c, 'h) backend \<Rightarrow> consensusMessage \<Rightarrow> int64 \<Rightarrow> 'h \<Rightarrow> Step \<Rightarrow> consensusMessage option
     \<Rightarrow> ('c, 'h) core \<Rightarrow> ('c, 'h) core result" where
  "Line28 B cm r lh s p c =
     (case p of
        None \<Rightarrow> Ok c
      | Some pr \<Rightarrow>
          if in_types (msgType cm) [msgProposal, msgPrevote] \<and> cmRound pr = r
             \<and> cache_prevoteQuorum B (msgCache c) (Some (cmValue pr)) (cmValidRound pr) lh
             \<and> s = propose
             \<and> (0 \<le> sint (cmValidRound pr) \<and> sint (cmValidRound pr) < sint r)
          then
            if cache_isValid B (msgCache c) (cmValue pr)
            then
              if sint (lockedRound c) \<le> sint (cmValidRound pr)
              then Ok (sendPrevote voteForValue c)
              else (case Block_Hash (lockedValue c) of
                      Panic e \<Rightarrow> Panic e
                    | Ok lockedHash \<Rightarrow>
                        if lockedHash = cmValue pr then Ok (sendPrevote voteForValue c)
                        else Ok (sendPrevote voteForNil c))
            else Ok (sendPrevote voteForNil c)
          else Ok c)"

definition Line34 ::
  "('c, 'h) backend \<Rightarrow> consensusMessage \<Rightarrow> int64 \<Rightarrow> nat \<Rightarrow> 'h \<Rightarrow> Step
     \<Rightarrow> ('c, 'h) core \<Rightarrow> ('c, 'h) core" where
  "Line34 B cm r h lh s c =
     (if in_types (msgType cm) [msgPrevote] \<and> cmRound cm = r
         \<and> cache_prevoteQuorum B (msgCache c) None r lh
         \<and> s = prevote \<and> \<not> line34Executed c
      then scheduleTimeout prevoteTimeout (timeoutPrevote r) r h onTimeoutPrecommit c
      else c)"

definition Line36 ::
  "('c, 'h) backend \<Rightarrow> consensusMessage \<Rightarrow> int64 \<Rightarrow> 'h \<Rightarrow> consensusMessage option
     \<Rightarrow> Step \<times> ('c, 'h) core \<Rightarrow> Step \<times> ('c, 'h) core" where
  "Line36 B cm r lh p sc =
     (case sc of (s, c) \<Rightarrow>
        (case p of
           None \<Rightarrow> (s, c)
         | Some pr \<Rightarrow>
             if in_types (msgType cm) [msgProposal, msgPrevote] \<and> cmRound pr = r
                \<and> cache_prevoteQuorum B (msgCache c) (Some (cmValue pr)) r lh
                \<and> cache_isValid B (msgCache c) (cmValue pr)
                \<and> Step_ord s \<ge> Step_ord prevote \<and> \<not> line36Executed c
             then
               let block = cache_value B (msgCache c) (cmValue pr);
                   (s1, c1) =
                     (if s = prevote
                      then (precommit,
                            (sendPrecommit voteForValue
                               (c \<lparr> lockedValue := block, lockedRound := r \<rparr>))
                              \<lparr> step := precommit \<rparr>)
                      else (s, c))
               in (s1, c1 \<lparr> validValue := block, validRound := r \<rparr>)
             else (s, c)))"

definition Line44 ::
  "('c, 'h) backend \<Rightarrow> consensusMessage \<Rightarrow> int64 \<Rightarrow> 'h
     \<Rightarrow> Step \<times> ('c, 'h) core \<Rightarrow> Step \<times> ('c, 'h) core" where
  "Line44 B cm r lh sc =
     (case sc of (s, c) \<Rightarrow>
        if in_types (msgType cm) [msgPrevote] \<and> cmRound cm = r
           \<and> cache_prevoteQuorum B (msgCache c) (Some nilValue) r lh \<and> s = prevote
        then (precommit, (sendPrecommit voteForValue c) \<lparr> step := precommit \<rparr>)
        else (s, c))"

definition Line47 ::
  "('c, 'h) backend \<Rightarrow> consensusMessage \<Rightarrow> int64 \<Rightarrow> nat \<Rightarrow> 'h
     \<Rightarrow> ('c, 'h) core \<Rightarrow> ('c, 'h) core" where
  "Line47 B cm r h lh c =
     (if in_types (msgType cm) [msgPrecommit] \<and> cmRound cm = r
         \<and> cache_precommitQuorum B (msgCache c) None r lh \<and> \<not> line47Executed c
      then scheduleTimeout precommitTimeout (timeoutPrecommit r) r h onTimeoutPrecommit c
      else c)"

text \<open>
  Line 49 ends after the four resets: what follows them in the source is a comment
  about how to start the round, and no statement.
\<close>

definition Line49 ::
  "('c, 'h) backend \<Rightarrow> consensusMessage \<Rightarrow> 'h \<Rightarrow> consensusMessage option
     \<Rightarrow> ('c, 'h) core \<Rightarrow> ('c, 'h) core result" where
  "Line49 B cm lh p c =
     (case p of
        None \<Rightarrow> Ok c
      | Some pr \<Rightarrow>
          if in_types (msgType cm) [msgProposal, msgPrecommit]
             \<and> cache_precommitQuorum B (msgCache c) (Some (cmValue pr)) (cmRound pr) lh
          then
            if cache_isValid B (msgCache c) (cmValue pr)
            then
              let block = cache_value B (msgCache c) (cmValue pr);
                  c1 = commit block (cmRound pr) c
              in (case Block_Number block of
                    Panic e \<Rightarrow> Panic e
                  | Ok number \<Rightarrow>
                      Ok ((setHeight (number + 1) c1)
                            \<lparr> lockedRound := -1, lockedValue := None,
                              validRound := -1, validValue := None \<rparr>))
            else Ok c
          else Ok c)"

text \<open>Line 55 evaluates its condition and has an empty body.\<close>

definition Line55 ::
  "('c, 'h) backend \<Rightarrow> consensusMessage \<Rightarrow> int64 \<Rightarrow> 'h \<Rightarrow> ('c, 'h) core \<Rightarrow> ('c, 'h) core" where
  "Line55 B cm r lh c =
     (if sint (cmRound cm) > sint r \<and> cache_fail B (msgCache c) (cmRound cm) lh then c else c)"

definition checkUponConditions ::
  "('c, 'h) backend \<Rightarrow> consensusMessage \<Rightarrow> ('c, 'h) core \<Rightarrow> ('c, 'h) core result" where
  "checkUponConditions B cm c =
     (let r = round c;
          h = height c;
          lh = lastHeader c;
          s = step c;
          p = cache_matchingProposal B (msgCache c) cm
      in case Line22 B cm r c of
           Panic e \<Rightarrow> Panic e
         | Ok c1 \<Rightarrow>
             (case Line28 B cm r lh s p c1 of
                Panic e \<Rightarrow> Panic e
              | Ok c2 \<Rightarrow>
                  (case Line44 B cm r lh (Line36 B cm r lh p (s, Line34 B cm r h lh s c2)) of
                     (s5, c5) \<Rightarrow>
                       (case Line49 B cm lh p (Line47 B cm r h lh c5) of
                          Panic e \<Rightarrow> Panic e
                        | Ok c7 \<Rightarrow> Ok (Line55 B cm r lh c7)))))"

subsection \<open>handleCurrentHeightMessage and handleMsg\<close>

text \<open>
  In the proposal case the source returns \<open>errNotFromProposer\<close> inside the \<open>if\<close>;
  the call of \<open>backend.VerifyProposal\<close> and of \<open>msgCache.setValid(cm.value)\<close> stand
  after that \<open>return\<close>, inside the same block, and are never executed. A proposal
  from the proposer skips the block.
\<close>

definition handleCurrentHeightMessage ::
  "('c, 'h) backend \<Rightarrow> ('c, 'h) core \<Rightarrow> Message \<Rightarrow> consensusMessage
     \<Rightarrow> (error option \<times> ('c, 'h) core) result" where
  "handleCurrentHeightMessage B c m cm =
     (if \<not> CommitteeMember B (lastHeader c) (Address m) then Ok (Some ErrNonCommitteeMember, c)
      else
        case PayloadNoSig B m of
          Inl err \<Rightarrow> Ok (Some err, c)
        | Inr payload \<Rightarrow>
            (case CheckValidatorSignature B (lastHeader c) payload (Signature m) of
               Inl err \<Rightarrow> Ok (Some err, c)
             | Inr address \<Rightarrow>
                 if address \<noteq> Address m then Ok (Some ErrAddressMismatch, c)
                 else if Code m = msgProposal
                 then
                   if \<not> isProposerMsg B c (cmRound cm) (Address m)
                   then Ok (Some errNotFromProposer, c)
                   else (case checkUponConditions B cm c of
                           Panic e \<Rightarrow> Panic e
                         | Ok c' \<Rightarrow> Ok (None, c'))
                 else
                   (case checkUponConditions B cm
                           (c \<lparr> msgCache := cache_setValid B (msgCache c) (Hash m) \<rparr>) of
                      Panic e \<Rightarrow> Panic e
                    | Ok c' \<Rightarrow> Ok (None, c'))))"

definition handleMsg ::
  "('c, 'h) backend \<Rightarrow> ('c, 'h) core \<Rightarrow> byte list \<Rightarrow> (error option \<times> ('c, 'h) core) result" where
  "handleMsg B c payload =
     (let m0 = new_Message \<lparr> Hash := Keccak256 B payload \<rparr>
      in if cache_Message B (msgCache c) (Hash m0) \<noteq> None then Ok (None, c)
         else
           case rlp_DecodeBytes B payload m0 of
             Inl err \<Rightarrow> Ok (Some err, c)
           | Inr m \<Rightarrow>
               let dispatch = (\<lambda>conMsg c'.
                     if cmHeight conMsg \<noteq> of_nat (height c') then Ok (None, c')
                     else handleCurrentHeightMessage B c' m conMsg)
               in
               if Code m = msgProposal then
                 (case Decode_Proposal B m of
                    Inl err \<Rightarrow> Ok (Some errFailedDecodeProposal, c)
                  | Inr proposal \<Rightarrow>
                      (case Block_Hash (ProposalBlock proposal) of
                         Panic e \<Rightarrow> Panic e
                       | Ok valueHash \<Rightarrow>
                           let conMsg = \<lparr> msgType = consensusMessageType (Code m),
                                          cmHeight = of_nat (Height proposal),
                                          cmRound = Round proposal,
                                          cmValue = valueHash,
                                          cmValidRound = ValidRound proposal \<rparr>
                           in (case cache_addMessage B (msgCache c) m conMsg of
                                 (Some err, cache') \<Rightarrow> Ok (Some err, c \<lparr> msgCache := cache' \<rparr>)
                               | (None, cache') \<Rightarrow>
                                   dispatch conMsg
                                     (c \<lparr> msgCache := cache_addValue B cache' valueHash
                                                         (ProposalBlock proposal) \<rparr>))))
               else if Code m = msgPrevote then
                 (case Decode_Vote B m of
                    Inl err \<Rightarrow> Ok (Some errFailedDecodePrevote, c)
                  | Inr preVote \<Rightarrow>
                      let conMsg = \<lparr> msgType = consensusMessageType (Code m),
                                     cmHeight = of_nat (VoteHeight preVote),
                                     cmRound = VoteRound preVote,
                                     cmValue = ProposedBlockHash preVote,
                                     cmValidRound = 0 \<rparr>
                      in (case cache_addMessage B (msgCache c) m conMsg of
                            (Some err, cache') \<Rightarrow> Ok (Some err, c \<lparr> msgCache := cache' \<rparr>)
                          | (None, cache') \<Rightarrow> dispatch conMsg (c \<lparr> msgCache := cache' \<rparr>)))
               else if Code m = msgPrecommit then
                 (case Decode_Vote B m of
                    Inl err \<Rightarrow> Ok (Some errFailedDecodePrecommit, c)
                  | Inr preCommit \<Rightarrow>
                      (case verifyCommittedSeal B (Address m) (CommittedSeal m)
                              (ProposedBlockHash preCommit) (VoteRound preCommit)
                              (VoteHeight preCommit) of
                         Some err \<Rightarrow> Ok (Some err, c)
                       | None \<Rightarrow>
                           let conMsg = \<lparr> msgType = consensusMessageType (Code m),
                                          cmHeight = of_nat (VoteHeight preCommit),
                                          cmRound = VoteRound preCommit,
                                          cmValue = ProposedBlockHash preCommit,
                                          cmValidRound = 0 \<rparr>
                           in (case cache_addMessage B (msgCache c) m conMsg of
                                 (Some err, cache') \<Rightarrow> Ok (Some err, c \<lparr> msgCache := cache' \<rparr>)
                               | (None, cache') \<Rightarrow> dispatch conMsg (c \<lparr> msgCache := cache' \<rparr>))))
               else Ok (Some (ErrUnrecognisedCode (Code m)), c))"

subsection \<open>mainEventLoop: the dispatch of a timeout event\<close>

datatype timeoutHandler = handleTimeoutPropose | handleTimeoutPrevote | handleTimeoutPrecommit

text \<open>The \<open>switch\<close> on \<open>timeoutE.step\<close>; no case matches any other step value.\<close>

definition timeoutDispatch :: "uint64 \<Rightarrow> timeoutHandler option" where
  "timeoutDispatch stepCode =
     (if stepCode = msgProposal then Some handleTimeoutPropose
      else if stepCode = msgPrevote then Some handleTimeoutPrevote
      else if stepCode = msgPrecommit then Some handleTimeoutPrecommit
      else None)"

subsection \<open>Counting the verifications\<close>

fun isVerifyProposal :: "effect \<Rightarrow> bool" where
  "isVerifyProposal (VerifyProposal b) = True"
| "isVerifyProposal e = False"

definition verifications :: "('c, 'h) core \<Rightarrow> effect list" where
  "verifications c = filter isVerifyProposal (effects c)"

section \<open>Derived notions used by the properties\<close>

text \<open>
  Decoding, into the receiver \<open>p0\<close>, what \<open>EncodeRLP\<close> wrote for \<open>p\<close>; the
  encoder's error when it fails.
\<close>

definition Proposal_encode_decode :: "'b Proposal \<Rightarrow> 'b Proposal \<Rightarrow> error option \<times> 'b Proposal" where
  "Proposal_encode_decode p0 p =
     (case Proposal_EncodeRLP p of
        Inl err \<Rightarrow> (Some err, p0)
      | Inr w \<Rightarrow> Proposal_DecodeRLP p0 (Inr w))"

definition Vote_encode_decode :: "Vote \<Rightarrow> Vote \<Rightarrow> error option \<times> Vote" where
  "Vote_encode_decode v0 v =
     (case Vote_EncodeRLP v of
        Inl err \<Rightarrow> (Some err, v0)
      | Inr w \<Rightarrow> Vote_DecodeRLP v0 (Inr w))"

text \<open>
  A message is of a kind accepted by the evidence codec when its code is the code of
  a prevote, a precommit or a light proposal. The decoder of that kind belongs to
  the message package; the property on proofs is stated for the messages that this
  decoder reads back from their own encoding.
\<close>

definition acceptedKind :: "'m MessageCodec \<Rightarrow> 'm \<Rightarrow> bool" where
  "acceptedKind K m =
     (msgCode K m = PrevoteCode \<and> decodePrevote K (msgEncode K m) = Inr m
      \<or> msgCode K m = PrecommitCode \<and> decodePrecommit K (msgEncode K m) = Inr m
      \<or> msgCode K m = LightProposalCode \<and> decodeLightProposal K (msgEncode K m) = Inr m)"

fun allAccepted :: "'m MessageCodec \<Rightarrow> 'm list \<Rightarrow> bool" where
  "allAccepted K [] = True"
| "allAccepted K (m # ms) = (acceptedKind K m \<and> allAccepted K ms)"

section \<open>Concrete inputs\<close>

subsection \<open>Codec\<close>

definition hashB :: hash where
  "hashB = replicate 32 11"

definition blockB :: Block where
  "blockB = \<lparr> blockHash = hashB, blockNumber = 10 \<rparr>"

definition zeroProposal :: "Block Proposal" where
  "zeroProposal = \<lparr> Round = 0, Height = 0, ValidRound = 0, ProposalBlock = None \<rparr>"

definition zeroVote :: Vote where
  "zeroVote = \<lparr> VoteRound = 0, VoteHeight = 0, ProposedBlockHash = [] \<rparr>"

definition firstProposal :: "int64 \<Rightarrow> Block Proposal" where
  "firstProposal r = \<lparr> Round = r, Height = 10, ValidRound = -1, ProposalBlock = Some blockB \<rparr>"

definition voteB :: "int64 \<Rightarrow> Vote" where
  "voteB r = \<lparr> VoteRound = r, VoteHeight = 10, ProposedBlockHash = hashB \<rparr>"

text \<open>
  A message codec on pairs of a code and a body: a message is encoded as the list of
  its body, and each decoder stamps its own code on the body it reads.
\<close>

definition pairDecoder :: "byte \<Rightarrow> rlpItem \<Rightarrow> error + (byte \<times> byte list)" where
  "pairDecoder code item =
     (case item of
        RlpList [RlpString b] \<Rightarrow> Inr (code, b)
      | _ \<Rightarrow> Inl (ErrRlp ''rlp: malformed message''))"

definition pairCodec :: "(byte \<times> byte list) MessageCodec" where
  "pairCodec =
     \<lparr> msgCode = fst,
       msgEncode = (\<lambda>m. RlpList [RlpString (snd m)]),
       decodePrevote = pairDecoder PrevoteCode,
       decodePrecommit = pairDecoder PrecommitCode,
       decodeLightProposal = pairDecoder LightProposalCode \<rparr>"

definition equivocationProof :: "(byte \<times> byte list) Proof" where
  "equivocationProof =
     \<lparr> Type = 0, Rule = 7, Message = (PrecommitCode, [5]),
       Evidences = [(PrevoteCode, [6]), (LightProposalCode, [7]), (PrevoteCode, [8])] \<rparr>"

definition zeroProof :: "(byte \<times> byte list) typedMessage Proof" where
  "zeroProof = \<lparr> Type = 0, Rule = 0, Message = typedMessage (0, []), Evidences = [] \<rparr>"

subsection \<open>Message store\<close>

definition addrV1 :: address where
  "addrV1 = replicate 20 1"

text \<open>A prevote of the sender \<open>addrV1\<close> at the given height, round 0.\<close>

definition prevoteAt :: "uint64 \<Rightarrow> mUtilsMessage" where
  "prevoteAt h = \<lparr> mCode = 1, mAddress = addrV1, mHeight = h, mRound = 0, mBody = [42] \<rparr>"

subsection \<open>A cache and a backend given by tables\<close>

text \<open>
  The handlers are parametric in the message cache and the other collaborators. To
  run them on explicit inputs, \<open>tableCache\<close> is a cache given by tables and
  \<open>tableBackend\<close> reads them: a message is known when its hash is listed, a value is
  valid when listed, a quorum exists when listed, and the matching proposal of a
  proposal message is the message itself. Hashing is the identity on the payload,
  every sender is a committee member whose signature is its address, and the
  proposer of every round is \<open>addrV1\<close>.
\<close>

record tableCache =
  tcMessages :: "(hash \<times> Message) list"
  tcValid :: "hash list"
  tcProposals :: "consensusMessage list"
  tcValues :: "(hash \<times> Block) list"
  tcPrevoteQuorums :: "(hash option \<times> int64) list"
  tcPrecommitQuorums :: "(hash option \<times> int64) list"

definition emptyCache :: tableCache where
  "emptyCache = \<lparr> tcMessages = [], tcValid = [], tcProposals = [], tcValues = [],
                   tcPrevoteQuorums = [], tcPrecommitQuorums = [] \<rparr>"

definition tableBackend :: "(tableCache, unit) backend" where
  "tableBackend =
     \<lparr> Keccak256 = (\<lambda>payload. payload),
       rlp_DecodeBytes = (\<lambda>payload m. Inl (ErrRlp ''rlp: malformed'')),
       Decode_Proposal = (\<lambda>m. Inl (ErrRlp ''rlp: malformed'')),
       Decode_Vote = (\<lambda>m. Inl (ErrRlp ''rlp: malformed'')),
       verifyCommittedSeal = (\<lambda>a seal v r h. None),
       cache_Message = (\<lambda>c h. map_of (tcMessages c) h),
       cache_addMessage = (\<lambda>c m cm. (None, c \<lparr> tcMessages := (Hash m, m) # tcMessages c \<rparr>)),
       cache_addValue = (\<lambda>c v b. case b of None \<Rightarrow> c
                                   | Some blk \<Rightarrow> c \<lparr> tcValues := (v, blk) # tcValues c \<rparr>),
       cache_setValid = (\<lambda>c v. c \<lparr> tcValid := v # tcValid c \<rparr>),
       cache_isValid = (\<lambda>c v. v \<in> set (tcValid c)),
       cache_matchingProposal = (\<lambda>c cm.
          if msgType cm = consensusMessageType msgProposal then Some cm
          else find (\<lambda>p. cmHeight p = cmHeight cm \<and> cmRound p = cmRound cm
                          \<and> cmValue p = cmValue cm) (tcProposals c)),
       cache_prevoteQuorum = (\<lambda>c v r lh. (v, r) \<in> set (tcPrevoteQuorums c)),
       cache_precommitQuorum = (\<lambda>c v r lh. (v, r) \<in> set (tcPrecommitQuorums c)),
       cache_value = (\<lambda>c v. map_of (tcValues c) v),
       cache_fail = (\<lambda>c r lh. False),
       CommitteeMember = (\<lambda>lh a. True),
       PayloadNoSig = (\<lambda>m. Inr (Msg m)),
       CheckValidatorSignature = (\<lambda>lh payload sig. Inr sig),
       isProposerMsg = (\<lambda>c r a. a = addrV1) \<rparr>"

text \<open>
  A core at height 10 in the given round and step, locked (and with valid value) as
  given, with the latches unset and no effect recorded.
\<close>

definition coreAt ::
  "int64 \<Rightarrow> Step \<Rightarrow> int64 \<Rightarrow> Block option \<Rightarrow> tableCache \<Rightarrow> (tableCache, unit) core" where
  "coreAt r st lr lv cache =
     \<lparr> height = 10, round = r, step = st,
       lockedRound = lr, lockedValue = lv,
       validRound = lr, validValue = lv,
       line34Executed = False, line36Executed = False, line47Executed = False,
       msgCache = cache, lastHeader = (), effects = [] \<rparr>"

text \<open>
  The consensus message of height 10 and the given round for the hash of \<open>blockB\<close>;
  a proposal has valid round -1.
\<close>

definition conMsgB :: "uint64 \<Rightarrow> int64 \<Rightarrow> consensusMessage" where
  "conMsgB code r =
     \<lparr> msgType = consensusMessageType code, cmHeight = 10, cmRound = r, cmValue = hashB,
       cmValidRound = (if code = msgProposal then -1 else 0) \<rparr>"

text \<open>The message of the sender \<open>addrV1\<close> that carries it, with payload and hash \<open>[7]\<close>.\<close>

definition messageB :: "uint64 \<Rightarrow> Message" where
  "messageB code = \<lparr> Code = code, Msg = [7], Address = addrV1, Signature = addrV1,
                     CommittedSeal = [], Hash = [7] \<rparr>"

text \<open>The cache in which \<open>blockB\<close> is proposed, stored, valid and has a precommit quorum at round 0.\<close>

definition quorumCache :: tableCache where
  "quorumCache =
     emptyCache \<lparr> tcValid := [hashB],
                  tcProposals := [conMsgB msgProposal 0],
                  tcValues := [(hashB, blockB)],
                  tcPrecommitQuorums := [(Some hashB, 0)] \<rparr>"

text \<open>The cache in which a prevote quorum for some value is seen at round 0.\<close>

definition anyPrevoteQuorumCache :: tableCache where
  "anyPrevoteQuorumCache = emptyCache \<lparr> tcPrevoteQuorums := [(None, 0)] \<rparr>"

text \<open>The cache that already holds the prevote with hash \<open>[7]\<close>.\<close>

definition knownCache :: tableCache where
  "knownCache = emptyCache \<lparr> tcMessages := [([7], messageB msgPrevote)] \<rparr>"

text \<open>The store after a prevote at height 5 and one at height 12 were saved.\<close>

definition store_5_12 :: MsgStore where
  "store_5_12 = Save (Save NewMsgStore (prevoteAt 5)) (prevoteAt 12)"

section \<open>Properties of the message codec\<close>

lemma sint_range_uint:
  fixes x :: "64 word"
  assumes "0 \<le> sint x" and "sint x \<le> n"
  shows "uint x \<le> n"
proof -
  have "sint x < 2 ^ 64"
    using sint_lt [of x] by simp
  with assms(1) have "take_bit 64 (sint x) = sint x"
    by (simp add: take_bit_int_eq_self)
  then have "uint x = sint x"
    using uint_sint [of x] by simp
  with assms(2) show ?thesis by simp
qed

lemma Proposal_roundtrip:
  assumes "0 \<le> sint (Round p)" and "sint (Round p) \<le> MaxRound"
    and "ValidRound p = -1 \<or> 0 \<le> sint (ValidRound p) \<and> sint (ValidRound p) \<le> MaxRound"
    and "ProposalBlock p \<noteq> None"
  shows "Proposal_encode_decode p0 p = (None, p)"
  using assms sint_range_uint [of "Round p" MaxRound]
  by (auto simp: Proposal_encode_decode_def Proposal_EncodeRLP_def Proposal_DecodeRLP_def
      MaxRound_def)

lemma Vote_roundtrip:
  assumes "sint (VoteRound v) \<le> MaxRound"
  shows "Vote_encode_decode v0 v = (None, v)"
  using assms
  by (simp add: Vote_encode_decode_def Vote_EncodeRLP_def Vote_DecodeRLP_def Let_def)

text \<open>
  C5: the rounds of the data model are the rounds from 0 to \<open>MaxRound\<close>. For every
  proposal with such a round, with valid round -1 or in \<open>[0, MaxRound]\<close>, and with a
  block, \<open>DecodeRLP\<close> of what \<open>EncodeRLP\<close> wrote returns no error and the proposal
  itself: its round, height, valid round (-1 through the is-nil flag) and block,
  whatever the receiver held. Likewise for every vote, prevote or precommit, with a
  round of at most \<open>MaxRound\<close>: \<open>DecodeRLP\<close> of what \<open>EncodeRLP\<close> wrote returns no
  error and the vote itself.
\<close>

theorem codec_roundtrip:
  "(0 \<le> sint (Round p) \<and> sint (Round p) \<le> MaxRound
      \<and> (ValidRound p = -1 \<or> 0 \<le> sint (ValidRound p) \<and> sint (ValidRound p) \<le> MaxRound)
      \<and> ProposalBlock p \<noteq> None
    \<longrightarrow> Proposal_encode_decode p0 p = (None, p))
   \<and> (sint (VoteRound v) \<le> MaxRound \<longrightarrow> Vote_encode_decode v0 v = (None, v))"
  using Proposal_roundtrip [of p p0] Vote_roundtrip [of v v0] by blast

theorem codec_roundtrip_witness:
  "0 \<le> sint (Round (firstProposal 3)) \<and> sint (Round (firstProposal 3)) \<le> MaxRound
   \<and> ValidRound (firstProposal 3) = -1
   \<and> ProposalBlock (firstProposal 3) \<noteq> None
   \<and> Proposal_encode_decode zeroProposal (firstProposal 3) = (None, firstProposal 3)
   \<and> sint (VoteRound (voteB 99)) \<le> MaxRound
   \<and> Vote_encode_decode zeroVote (voteB 99) = (None, voteB 99)"
  using codec_roundtrip [of "firstProposal 3" zeroProposal "voteB 99" zeroVote]
  by (simp add: firstProposal_def voteB_def MaxRound_def)

text \<open>
  A proposal with valid round in \<open>[0, MaxRound]\<close>, the other case of the valid round.
\<close>

lemma reproposal_roundtrip:
  "Proposal_encode_decode zeroProposal
     \<lparr> Round = 5, Height = 10, ValidRound = 2, ProposalBlock = Some blockB \<rparr>
   = (None, \<lparr> Round = 5, Height = 10, ValidRound = 2, ProposalBlock = Some blockB \<rparr>)"
  by (simp add: Proposal_encode_decode_def Proposal_EncodeRLP_def Proposal_DecodeRLP_def
      MaxRound_def zeroProposal_def)

text \<open>
  The bound on the round is the decoder's own: one step outside the data model, the
  proposal of round 100 with valid round -1 and the block \<open>blockB\<close> is encoded, and
  the decoder rejects its encoding.
\<close>

lemma proposal_round_100_not_decoded:
  "Proposal_encode_decode zeroProposal (firstProposal 100) = (Some ErrInvalidRounds, zeroProposal)"
  by (simp add: firstProposal_def Proposal_encode_decode_def Proposal_EncodeRLP_def
      Proposal_DecodeRLP_def MaxRound_def)

text \<open>
  The rejections of C6 that the decoders do make: an is-nil flag with a non-zero
  valid round, an encoded round above \<open>MaxRound\<close>, a nil block, and a vote whose
  round, read as an \<open>int64\<close>, is above \<open>MaxRound\<close>.
\<close>

lemma Proposal_DecodeRLP_rejects:
  "rlpIsValidRoundNil w \<and> rlpValidRound w \<noteq> 0
     \<Longrightarrow> Proposal_DecodeRLP p0 (Inr w) = (Some ErrBadValidRoundNil, p0)"
  "uint (rlpRound w) > MaxRound \<Longrightarrow> fst (Proposal_DecodeRLP p0 (Inr w)) \<noteq> None"
  "rlpProposalBlock w = None \<Longrightarrow> fst (Proposal_DecodeRLP p0 (Inr w)) \<noteq> None"
  by (auto simp: Proposal_DecodeRLP_def Let_def)

lemma Vote_DecodeRLP_rejects:
  "sint (rlpVoteRound w) > MaxRound \<Longrightarrow> fst (Vote_DecodeRLP v0 (Inr w)) = Some errInvalidMessage"
  by (simp add: Vote_DecodeRLP_def Let_def)

text \<open>
  C6 at the inputs where the code departs from it. The encoded round of a vote and
  the encoded valid round of a proposal are unsigned 64-bit values. The vote decoder
  and the valid-round check convert them to \<open>int64\<close> before comparing with
  \<open>MaxRound\<close>, so an encoded value of \<open>2^63\<close> or more, far above \<open>MaxRound\<close>, is
  read as a negative number and accepted: the vote with encoded round \<open>2^64 - 1\<close>
  decodes to round -1, and the proposal with encoded valid round \<open>2^64 - 2\<close> and an
  unset is-nil flag decodes to valid round -2.
\<close>

theorem decoders_accept_wrapped_rounds:
  "uint (0xFFFFFFFFFFFFFFFF :: uint64) > MaxRound
   \<and> Vote_DecodeRLP zeroVote
        (Inr \<lparr> rlpVoteRound = 0xFFFFFFFFFFFFFFFF, rlpVoteHeight = 10,
               rlpProposedBlockHash = hashB \<rparr>)
      = (None, \<lparr> VoteRound = -1, VoteHeight = 10, ProposedBlockHash = hashB \<rparr>)
   \<and> uint (0xFFFFFFFFFFFFFFFE :: uint64) > MaxRound
   \<and> Proposal_DecodeRLP zeroProposal
        (Inr \<lparr> rlpRound = 1, rlpHeight = 10, rlpValidRound = 0xFFFFFFFFFFFFFFFE,
               rlpIsValidRoundNil = False, rlpProposalBlock = Some blockB \<rparr>)
      = (None, \<lparr> Round = 1, Height = 10, ValidRound = -2, ProposalBlock = Some blockB \<rparr>)"
  by (simp add: Vote_DecodeRLP_def Proposal_DecodeRLP_def MaxRound_def zeroVote_def
      zeroProposal_def)

section \<open>Properties of the evidence codec\<close>

lemma rlpDecodeUint8_rlpUint8: "rlpDecodeUint8 (rlpUint8 c) = Inr c"
  by (simp add: rlpDecodeUint8_def rlpUint8_def)

lemma typedMessage_roundtrip:
  assumes "acceptedKind K m"
  shows "typedMessage_DecodeRLP K (typedMessage_EncodeRLP K (typedMessage m)) = Inr (typedMessage m)"
  using assms
  by (auto simp: acceptedKind_def typedMessage_DecodeRLP_def typedMessage_EncodeRLP_def
      rlpUint8_def PrevoteCode_def PrecommitCode_def LightProposalCode_def)

lemma appendEvidences_eq: "appendEvidences acc ms = acc @ map typedMessage ms"
  by (induction ms arbitrary: acc) simp_all

lemma decodeEvidences_roundtrip:
  "allAccepted K ms \<Longrightarrow>
   decodeEvidences K (map (typedMessage_EncodeRLP K \<circ> typedMessage) ms) = Inr (map typedMessage ms)"
  by (induction ms) (simp_all add: typedMessage_roundtrip)

lemma copyEvidences_id: "copyEvidences xs = xs"
  by (simp add: copyEvidences_def map_nth)

text \<open>
  C7: for every proof whose message and evidences are of the kinds accepted by the
  evidence codec, \<open>DecodeRLP\<close> of what \<open>EncodeRLP\<close> wrote returns no error and a proof
  with the same type and rule, the same message, and the same evidences in the same
  order, each held in a \<open>typedMessage\<close>, whatever the receiver held.
\<close>

theorem Proof_roundtrip:
  assumes "acceptedKind K (Message p)" and "allAccepted K (Evidences p)"
  shows "Proof_DecodeRLP K p0 (Proof_EncodeRLP K p) =
           (None, \<lparr> Type = Type p, Rule = Rule p,
                    Message = typedMessage (Message p),
                    Evidences = map typedMessage (Evidences p) \<rparr>)"
  using assms
  by (simp add: Proof_DecodeRLP_def Proof_EncodeRLP_def encodedProof_Encode_def
      encodedProof_Decode_def rlpDecodeUint8_rlpUint8 typedMessage_roundtrip
      appendEvidences_eq decodeEvidences_roundtrip copyEvidences_id)

theorem Proof_roundtrip_witness:
  "acceptedKind pairCodec (Message equivocationProof)
   \<and> allAccepted pairCodec (Evidences equivocationProof)
   \<and> Proof_DecodeRLP pairCodec zeroProof (Proof_EncodeRLP pairCodec equivocationProof) =
       (None, \<lparr> Type = 0, Rule = 7, Message = typedMessage (PrecommitCode, [5]),
                Evidences = [typedMessage (PrevoteCode, [6]),
                             typedMessage (LightProposalCode, [7]),
                             typedMessage (PrevoteCode, [8])] \<rparr>)"
proof -
  have a: "acceptedKind pairCodec (Message equivocationProof)"
    by (simp add: acceptedKind_def pairCodec_def pairDecoder_def equivocationProof_def)
  have b: "allAccepted pairCodec (Evidences equivocationProof)"
    by (simp add: acceptedKind_def pairCodec_def pairDecoder_def equivocationProof_def)
  show ?thesis
    using a b Proof_roundtrip [OF a b, of zeroProof] by (simp add: equivocationProof_def)
qed

section \<open>Properties of the message store\<close>

lemma stored_Save:
  "stored (Save ms m) h r c a =
     (if h = Height_Uint64 m \<and> r = mRound m \<and> c = mCode m \<and> a = mAddress m
      then stored ms h r c a @ [m] else stored ms h r c a)"
  by (auto simp: stored_def Save_def Let_def split: option.splits)

text \<open>
  C8, as stated, fails: saving the same prevote twice into the new store does not
  leave the store that saving it once leaves.
\<close>

theorem Save_twice_differs:
  "Save (Save NewMsgStore (prevoteAt 5)) (prevoteAt 5) \<noteq> Save NewMsgStore (prevoteAt 5)"
proof
  assume "Save (Save NewMsgStore (prevoteAt 5)) (prevoteAt 5) = Save NewMsgStore (prevoteAt 5)"
  then have "stored (Save (Save NewMsgStore (prevoteAt 5)) (prevoteAt 5)) 5 0 1 addrV1
           = stored (Save NewMsgStore (prevoteAt 5)) 5 0 1 addrV1"
    by simp
  then show False
    by (simp add: stored_Save Height_Uint64_def prevoteAt_def)
qed

text \<open>
  C8, amended: \<open>Save\<close> appends the message to the list stored under its height,
  round, code and sender, whether or not the list already holds an identical
  message, and leaves every other list as it was; saving the same message twice
  appends it twice.
\<close>

theorem Save_appends:
  "stored (Save ms m) h r c a =
     (if h = Height_Uint64 m \<and> r = mRound m \<and> c = mCode m \<and> a = mAddress m
      then stored ms h r c a @ [m] else stored ms h r c a)
   \<and> stored (Save (Save ms m) m) (Height_Uint64 m) (mRound m) (mCode m) (mAddress m)
       = stored ms (Height_Uint64 m) (mRound m) (mCode m) (mAddress m) @ [m, m]"
  by (simp add: stored_Save)

lemma FirstHeightBuffered_Save:
  "FirstHeightBuffered (Save ms m) =
     (if FirstHeightBuffered ms = 0 then H m else FirstHeightBuffered ms)"
  by (simp add: FirstHeightBuffered_def Save_def Let_def)

text \<open>
  C9, as stated, fails: after a prevote at height 5 was saved,
  \<open>DeleteMsgsBeforeHeight\<close> at 10 leaves \<open>FirstHeightBuffered\<close> at 5, which is not
  greater than 10.
\<close>

theorem FirstHeightBuffered_not_above_deleted:
  "FirstHeightBuffered (DeleteMsgsBeforeHeight (Save NewMsgStore (prevoteAt 5)) 10) = 5
   \<and> \<not> (FirstHeightBuffered (DeleteMsgsBeforeHeight (Save NewMsgStore (prevoteAt 5)) 10) > 10)"
  by (simp add: FirstHeightBuffered_def DeleteMsgsBeforeHeight_def Save_def NewMsgStore_def
      H_def prevoteAt_def)

text \<open>
  C9, amended: after \<open>DeleteMsgsBeforeHeight\<close> at \<open>h\<close>, every height that the store
  still holds is strictly greater than \<open>h\<close>, and the entries of the heights greater
  than \<open>h\<close> are as before. \<open>DeleteMsgsBeforeHeight\<close> does not change what
  \<open>FirstHeightBuffered\<close> returns. That value is 0 on a new store; \<open>Save\<close> of a
  message sets it to the message's height when it is 0 at that \<open>Save\<close>, and leaves
  it as it is otherwise.
\<close>

theorem DeleteMsgsBeforeHeight_keeps_firstHeight:
  "FirstHeightBuffered (DeleteMsgsBeforeHeight ms h) = FirstHeightBuffered ms
   \<and> (\<forall>k \<in> dom (messages (DeleteMsgsBeforeHeight ms h)). h < k)
   \<and> (\<forall>k. h < k \<longrightarrow> messages (DeleteMsgsBeforeHeight ms h) k = messages ms k)
   \<and> FirstHeightBuffered NewMsgStore = 0
   \<and> FirstHeightBuffered (Save ms m) =
       (if FirstHeightBuffered ms = 0 then H m else FirstHeightBuffered ms)"
proof -
  have 1: "FirstHeightBuffered (DeleteMsgsBeforeHeight ms h) = FirstHeightBuffered ms"
    by (simp add: FirstHeightBuffered_def DeleteMsgsBeforeHeight_def)
  have 2: "\<forall>k \<in> dom (messages (DeleteMsgsBeforeHeight ms h)). h < k"
    by (auto simp: DeleteMsgsBeforeHeight_def split: if_splits)
  have 3: "\<forall>k. h < k \<longrightarrow> messages (DeleteMsgsBeforeHeight ms h) k = messages ms k"
    by (auto simp: DeleteMsgsBeforeHeight_def)
  have 4: "FirstHeightBuffered NewMsgStore = 0"
    by (simp add: FirstHeightBuffered_def NewMsgStore_def)
  show ?thesis
    using 1 2 3 4 FirstHeightBuffered_Save by blast
qed

text \<open>
  After a save at height 5 and one at height 12, deleting at 10 keeps height 12 and
  leaves \<open>FirstHeightBuffered\<close> at 5. After a first save at height 0,
  \<open>FirstHeightBuffered\<close> is still 0, and the next save, at height 7, sets it to 7.
\<close>

theorem DeleteMsgsBeforeHeight_keeps_firstHeight_witness:
  "FirstHeightBuffered (DeleteMsgsBeforeHeight store_5_12 10) = 5
   \<and> 12 \<in> dom (messages (DeleteMsgsBeforeHeight store_5_12 10))
   \<and> (10 :: uint64) < 12
   \<and> messages (DeleteMsgsBeforeHeight store_5_12 10) 12 = messages store_5_12 12
   \<and> FirstHeightBuffered (Save NewMsgStore (prevoteAt 0)) = 0
   \<and> FirstHeightBuffered (Save (Save NewMsgStore (prevoteAt 0)) (prevoteAt 7)) = 7"
proof -
  have a: "FirstHeightBuffered store_5_12 = 5"
    by (simp add: store_5_12_def FirstHeightBuffered_def Save_def NewMsgStore_def H_def
        prevoteAt_def Let_def)
  have b: "12 \<in> dom (messages (DeleteMsgsBeforeHeight store_5_12 10))"
    by (simp add: store_5_12_def DeleteMsgsBeforeHeight_def Save_def NewMsgStore_def
        Height_Uint64_def prevoteAt_def Let_def dom_def)
  have c: "H (prevoteAt 0) = 0" "H (prevoteAt 7) = 7"
    by (simp_all add: H_def prevoteAt_def)
  note t1 = DeleteMsgsBeforeHeight_keeps_firstHeight [of store_5_12 10 "prevoteAt 7"]
  note t2 = DeleteMsgsBeforeHeight_keeps_firstHeight [of NewMsgStore 10 "prevoteAt 0"]
  note t3 = DeleteMsgsBeforeHeight_keeps_firstHeight
              [of "Save NewMsgStore (prevoteAt 0)" 10 "prevoteAt 7"]
  from t2 c have d: "FirstHeightBuffered (Save NewMsgStore (prevoteAt 0)) = 0"
    by simp
  from t3 d c
  have e: "FirstHeightBuffered (Save (Save NewMsgStore (prevoteAt 0)) (prevoteAt 7)) = 7"
    by simp
  from t1 a have f: "FirstHeightBuffered (DeleteMsgsBeforeHeight store_5_12 10) = 5"
    by simp
  from t1 have g: "messages (DeleteMsgsBeforeHeight store_5_12 10) 12 = messages store_5_12 12"
    by simp
  show ?thesis
    using b d e f g by simp
qed

section \<open>Properties of the core\<close>

lemmas scenario_defs =
  tableBackend_def coreAt_def conMsgB_def messageB_def blockB_def emptyCache_def
  quorumCache_def anyPrevoteQuorumCache_def knownCache_def
  msgProposal_def msgPrevote_def msgPrecommit_def consensusMessageType_def
  sendPrevote_def sendPrecommit_def emit_def scheduleTimeout_def commit_def setHeight_def
  Block_Hash_def Block_Number_def

lemmas rule_defs =
  checkUponConditions_def Line22_def Line28_def Line34_def Line36_def Line44_def
  Line47_def Line49_def Line55_def

text \<open>
  Line 22 with a locked block. A block is locked by line 36 only, for a value that
  the cache holds as valid. When the locked block's hash is valid in the cache
  whenever it is the proposed value, line 22 votes as C1 says: for the value when
  it is valid and either the locked round is -1 or the locked block is the value,
  and for nil otherwise.
\<close>

lemma Line22_agrees_when_locked_valid:
  assumes "msgType cm = consensusMessageType msgProposal" and "cmRound cm = r"
    and "cmValidRound cm = -1" and "step c = propose" and "lockedValue c = Some b"
    and "blockHash b = cmValue cm \<Longrightarrow> cache_isValid B (msgCache c) (cmValue cm)"
  shows "Line22 B cm r c =
           Ok (sendPrevote
                 (if cache_isValid B (msgCache c) (cmValue cm)
                     \<and> (lockedRound c = -1 \<or> blockHash b = cmValue cm)
                  then voteForValue else voteForNil) c)"
  using assms by (auto simp: Line22_def Block_Hash_def)

text \<open>
  Line 22 with no lock and a valid value: the left operand of \<open>||\<close> decides when
  the locked round is -1, and the node prevotes for the value.
\<close>

lemma Line22_valid_without_lock:
  assumes "msgType cm = consensusMessageType msgProposal" and "cmRound cm = r"
    and "cmValidRound cm = -1" and "step c = propose"
    and "cache_isValid B (msgCache c) (cmValue cm)" and "lockedRound c = -1"
  shows "Line22 B cm r c = Ok (sendPrevote voteForValue c)"
  using assms by (simp add: Line22_def)

text \<open>
  C1 at the inputs where the code departs from it. A proposal with valid round -1
  arrives for the current round while the step is propose; its value is not valid
  in the cache and the node has nothing locked (\<open>lockedValue\<close> is nil, as at the
  start of a height and after every commit). C1 requires a prevote for nil. In the
  code the condition is \<open>isValid && lockedRound == -1 || lockedValue.Hash() == value\<close>,
  which Go reads as \<open>(isValid && lockedRound == -1) || ...\<close>: the left operand is
  false, so \<open>lockedValue.Hash()\<close> is evaluated on the nil block, and
  \<open>checkUponConditions\<close> ends in a nil dereference. No prevote is sent.
\<close>

theorem line22_panics_on_invalid_value_without_lock:
  assumes "msgType cm = consensusMessageType msgProposal"
    and "cmRound cm = round c" and "cmValidRound cm = -1" and "step c = propose"
    and "\<not> cache_isValid B (msgCache c) (cmValue cm)"
    and "lockedValue c = None"
  shows "checkUponConditions B cm c = Panic NilPointerDereference"
proof -
  have "Line22 B cm (round c) c = Panic NilPointerDereference"
    using assms by (simp add: Line22_def Block_Hash_def)
  then show ?thesis
    by (simp add: checkUponConditions_def Let_def)
qed

text \<open>
  At height 10, round 0, step propose, with nothing locked and an empty cache, the
  proposal of \<open>blockB\<close> for round 0 with valid round -1 ends in the nil dereference.
\<close>

theorem line22_panics_on_invalid_value_without_lock_witness:
  "msgType (conMsgB msgProposal 0) = consensusMessageType msgProposal
   \<and> cmRound (conMsgB msgProposal 0) = round (coreAt 0 propose (-1) None emptyCache)
   \<and> cmValidRound (conMsgB msgProposal 0) = -1
   \<and> step (coreAt 0 propose (-1) None emptyCache) = propose
   \<and> \<not> cache_isValid tableBackend (msgCache (coreAt 0 propose (-1) None emptyCache))
          (cmValue (conMsgB msgProposal 0))
   \<and> lockedValue (coreAt 0 propose (-1) None emptyCache) = None
   \<and> checkUponConditions tableBackend (conMsgB msgProposal 0)
        (coreAt 0 propose (-1) None emptyCache)
      = Panic NilPointerDereference"
proof -
  have 1: "msgType (conMsgB msgProposal 0) = consensusMessageType msgProposal"
    by (simp add: conMsgB_def)
  have 2: "cmRound (conMsgB msgProposal 0) = round (coreAt 0 propose (-1) None emptyCache)"
    by (simp add: conMsgB_def coreAt_def)
  have 3: "cmValidRound (conMsgB msgProposal 0) = -1"
    by (simp add: conMsgB_def)
  have 4: "step (coreAt 0 propose (-1) None emptyCache) = propose"
    by (simp add: coreAt_def)
  have 5: "\<not> cache_isValid tableBackend (msgCache (coreAt 0 propose (-1) None emptyCache))
              (cmValue (conMsgB msgProposal 0))"
    by (simp add: tableBackend_def coreAt_def emptyCache_def)
  have 6: "lockedValue (coreAt 0 propose (-1) None emptyCache) = None"
    by (simp add: coreAt_def)
  have 7: "checkUponConditions tableBackend (conMsgB msgProposal 0)
             (coreAt 0 propose (-1) None emptyCache)
           = Panic NilPointerDereference"
    by (rule line22_panics_on_invalid_value_without_lock [OF 1 2 3 4 5 6])
  show ?thesis
    by (intro conjI) (rule 1 2 3 4 5 6 7)+
qed

text \<open>
  C2 at an input where the code departs from it. The node is at height 10, round 0,
  step precommit, locked on \<open>blockB\<close>; the cache holds the proposal of \<open>blockB\<close>,
  holds its hash as valid and sees a precommit quorum for it at round 0. On a
  precommit for that hash, \<open>checkUponConditions\<close> commits \<open>blockB\<close>, sets the height
  to 11 and resets the locked and valid round and value; the commit is its only
  effect, and no round is started.
\<close>

theorem line49_commits_without_start_round:
  "checkUponConditions tableBackend (conMsgB msgPrecommit 0)
     (coreAt 0 precommit 0 (Some blockB) quorumCache)
   = Ok ((coreAt 0 precommit (-1) None quorumCache)
           \<lparr> height := 11, effects := [Commit (Some blockB) 0] \<rparr>)"
  by (simp add: rule_defs scenario_defs)

text \<open>
  C3 at an input where the code departs from it. The node is at height 10, round 0,
  step prevote, with the line-34 latch unset, and the cache sees a prevote quorum at
  round 0. On a prevote of round 0, \<open>checkUponConditions\<close> schedules the prevote
  timer for round 0 and height 10, and the callback it registers for the expiry is
  \<open>onTimeoutPrecommit\<close>, not \<open>onTimeoutPrevote\<close>. The event loop calls
  \<open>handleTimeoutPrevote\<close> for a timeout event of step prevote only; an event of step
  precommit goes to \<open>handleTimeoutPrecommit\<close>.
\<close>

theorem line34_registers_precommit_callback:
  "checkUponConditions tableBackend (conMsgB msgPrevote 0)
     (coreAt 0 prevote (-1) None anyPrevoteQuorumCache)
   = Ok ((coreAt 0 prevote (-1) None anyPrevoteQuorumCache)
           \<lparr> effects := [ScheduleTimeout prevoteTimeout (timeoutPrevote 0) 0 10
                            onTimeoutPrecommit] \<rparr>)
   \<and> timeoutDispatch msgPrevote = Some handleTimeoutPrevote
   \<and> timeoutDispatch msgPrecommit = Some handleTimeoutPrecommit"
  by (simp add: rule_defs scenario_defs timeoutDispatch_def)

subsection \<open>No handler verifies a proposal\<close>

lemma Line22_verifications:
  "Line22 B cm r c = Ok c' \<Longrightarrow> verifications c' = verifications c"
  by (auto simp: Line22_def verifications_def sendPrevote_def emit_def Block_Hash_def
      split: if_splits option.splits)

lemma Line28_verifications:
  "Line28 B cm r lh s p c = Ok c' \<Longrightarrow> verifications c' = verifications c"
  by (auto simp: Line28_def verifications_def sendPrevote_def emit_def Block_Hash_def
      split: if_splits option.splits)

lemma Line34_verifications:
  "verifications (Line34 B cm r h lh s c) = verifications c"
  by (simp add: Line34_def verifications_def scheduleTimeout_def emit_def)

lemma Line36_verifications:
  "verifications (snd (Line36 B cm r lh p (s, c))) = verifications c"
  by (simp add: Line36_def verifications_def sendPrecommit_def emit_def Let_def
      split: option.splits)

lemma Line44_verifications:
  "verifications (snd (Line44 B cm r lh (s, c))) = verifications c"
  by (simp add: Line44_def verifications_def sendPrecommit_def emit_def)

lemma Line47_verifications:
  "verifications (Line47 B cm r h lh c) = verifications c"
  by (simp add: Line47_def verifications_def scheduleTimeout_def emit_def)

lemma Line49_verifications:
  "Line49 B cm lh p c = Ok c' \<Longrightarrow> verifications c' = verifications c"
  by (auto simp: Line49_def verifications_def commit_def setHeight_def emit_def
      Block_Number_def Let_def split: if_splits option.splits)

lemma Line55_verifications:
  "verifications (Line55 B cm r lh c) = verifications c"
  by (simp add: Line55_def)

lemma checkUponConditions_verifications:
  assumes "checkUponConditions B cm c = Ok c'"
  shows "verifications c' = verifications c"
proof -
  let ?p = "cache_matchingProposal B (msgCache c) cm"
  from assms obtain c1 where 1: "Line22 B cm (round c) c = Ok c1"
    by (auto simp: checkUponConditions_def Let_def split: result.splits)
  from assms 1 obtain c2
    where 2: "Line28 B cm (round c) (lastHeader c) (step c) ?p c1 = Ok c2"
    by (auto simp: checkUponConditions_def Let_def split: result.splits)
  define sc where
    "sc = Line36 B cm (round c) (lastHeader c) ?p
            (step c, Line34 B cm (round c) (height c) (lastHeader c) (step c) c2)"
  define sc5 where "sc5 = Line44 B cm (round c) (lastHeader c) sc"
  from assms 1 2 obtain c7
    where 7: "Line49 B cm (lastHeader c) ?p
                (Line47 B cm (round c) (height c) (lastHeader c) (snd sc5)) = Ok c7"
      and 8: "c' = Line55 B cm (round c) (lastHeader c) c7"
    by (auto simp: checkUponConditions_def Let_def sc_def sc5_def
        split: result.splits prod.splits)
  have "verifications (snd sc) = verifications c2"
    unfolding sc_def by (simp add: Line36_verifications Line34_verifications)
  moreover have "verifications (snd sc5) = verifications (snd sc)"
    unfolding sc5_def
    using Line44_verifications [of B cm "round c" "lastHeader c" "fst sc" "snd sc"] by simp
  ultimately show ?thesis
    using 1 2 7 8 Line22_verifications Line28_verifications Line49_verifications
    by (metis Line47_verifications Line55_verifications)
qed

lemma verifications_msgCache: "verifications (c \<lparr> msgCache := x \<rparr>) = verifications c"
  by (simp add: verifications_def)

text \<open>
  C4 on the code: whatever message \<open>handleCurrentHeightMessage\<close> handles, and in
  particular a proposal from the proposer, a call that returns has recorded no
  \<open>VerifyProposal\<close>: the verifications after it are those before it. Verification
  runs zero times, not once.
\<close>

theorem handleCurrentHeightMessage_never_verifies:
  assumes "handleCurrentHeightMessage B c m cm = Ok (err, c')"
  shows "verifications c' = verifications c"
  using assms
  by (auto simp: handleCurrentHeightMessage_def verifications_msgCache
      dest!: checkUponConditions_verifications split: if_splits sum.splits result.splits)

text \<open>
  At height 10, round 0, step prevote, the proposal of \<open>blockB\<close> from the proposer
  \<open>addrV1\<close> is accepted without error; no verification is recorded and the hash of
  \<open>blockB\<close> is not valid in the cache afterwards.
\<close>

theorem handleCurrentHeightMessage_never_verifies_witness:
  "isProposerMsg tableBackend (coreAt 0 prevote (-1) None emptyCache) 0 (Address (messageB msgProposal))
   \<and> handleCurrentHeightMessage tableBackend (coreAt 0 prevote (-1) None emptyCache)
        (messageB msgProposal) (conMsgB msgProposal 0)
      = Ok (None, coreAt 0 prevote (-1) None emptyCache)
   \<and> verifications (coreAt 0 prevote (-1) None emptyCache) = []
   \<and> \<not> cache_isValid tableBackend (msgCache (coreAt 0 prevote (-1) None emptyCache)) hashB"
proof -
  have run: "handleCurrentHeightMessage tableBackend (coreAt 0 prevote (-1) None emptyCache)
               (messageB msgProposal) (conMsgB msgProposal 0)
             = Ok (None, coreAt 0 prevote (-1) None emptyCache)"
    by (simp add: handleCurrentHeightMessage_def rule_defs scenario_defs)
  show ?thesis
    using run handleCurrentHeightMessage_never_verifies [OF run]
    by (simp add: scenario_defs verifications_def)
qed

subsection \<open>A payload that the cache already holds\<close>

text \<open>
  C10: for every payload whose Keccak256 hash is already in the message cache,
  \<open>handleMsg\<close> returns nil and leaves the whole core, the message cache and the
  round state in it, as it was, with no effect recorded; the payload is not decoded,
  so the result is the same whatever \<open>rlp.DecodeBytes\<close> would do with it.
\<close>

theorem handleMsg_known_payload:
  assumes "cache_Message B (msgCache c) (Keccak256 B payload) \<noteq> None"
  shows "handleMsg B c payload = Ok (None, c)
         \<and> handleMsg (B \<lparr> rlp_DecodeBytes := dec \<rparr>) c payload = Ok (None, c)"
  using assms by (simp add: handleMsg_def new_Message_def Let_def)

theorem handleMsg_known_payload_witness:
  "cache_Message tableBackend (msgCache (coreAt 0 prevote (-1) None knownCache))
     (Keccak256 tableBackend [7]) \<noteq> None
   \<and> handleMsg tableBackend (coreAt 0 prevote (-1) None knownCache) [7]
      = Ok (None, coreAt 0 prevote (-1) None knownCache)
   \<and> handleMsg (tableBackend \<lparr> rlp_DecodeBytes := (\<lambda>payload m. Inr (messageB msgProposal)) \<rparr>)
        (coreAt 0 prevote (-1) None knownCache) [7]
      = Ok (None, coreAt 0 prevote (-1) None knownCache)"
proof -
  have known: "cache_Message tableBackend (msgCache (coreAt 0 prevote (-1) None knownCache))
                 (Keccak256 tableBackend [7]) \<noteq> None"
    by (simp add: scenario_defs)
  show ?thesis
    using known
      handleMsg_known_payload [OF known, of "\<lambda>payload m. Inr (messageB msgProposal)"]
    by simp
qed

end
